theory Spec2Isabelle
  imports Complex_Main
begin

section \<open>JavaScript values used by the services\<close>

text \<open>
  Every value thrown inside the backend services is an \<open>Error\<close> object carrying a
  message: \<open>generateResponse\<close>, \<open>generateEmbedding\<close> and \<open>getIndex\<close> throw
  \<open>new Error(...)\<close>, and the runtime's own \<open>TypeError\<close> is an \<open>Error\<close> too.
\<close>

datatype js_error = Error string

text \<open>\<open>Array.prototype.join\<close> with a separator, on an array of strings.\<close>

fun join :: "string \<Rightarrow> string list \<Rightarrow> string" where
  "join sep [] = []"
| "join sep [x] = x"
| "join sep (x # y # ys) = x @ sep @ join sep (y # ys)"

text \<open>
  \<open>xs.slice(-n)\<close>: the start index is \<open>max (length xs - n) 0\<close>, which is what
  truncating subtraction on \<open>nat\<close> computes; the end is the end of the array.
\<close>

definition slice_last :: "nat \<Rightarrow> 'a list \<Rightarrow> 'a list" where
  "slice_last n xs = drop (length xs - n) xs"

text \<open>The decimal rendering of a non-negative integer, as a template literal prints it.\<close>

definition digit :: "nat \<Rightarrow> char" where
  \<comment> \<open>only applied to \<open>d < 10\<close>\<close>
  "digit d = ''0123456789'' ! d"

fun showNat :: "nat \<Rightarrow> string" where
  "showNat n = (if n < 10 then [digit n] else showNat (n div 10) @ [digit (n mod 10)])"

text \<open>
  \<open>x.toFixed(3)\<close> for a finite number below \<open>10^21\<close> in magnitude (similarity scores
  are): the sign when \<open>x < 0\<close>, then the integer \<open>n\<close> nearest to \<open>|x| * 1000\<close> (the
  larger one on a tie), written with a decimal point before its last three digits.
\<close>

definition toFixed3 :: "real \<Rightarrow> string" where
  "toFixed3 x =
     (let n = nat \<lfloor>\<bar>x\<bar> * 1000 + 1 / 2\<rfloor>;
          f = n mod 1000
      in (if x < 0 then ''-'' else '''') @ showNat (n div 1000) @ ''.''
         @ [digit (f div 100), digit (f div 10 mod 10), digit (f mod 10)])"

section \<open>The session manager (conversation store)\<close>

text \<open>
  A history entry carries a role and a content; the store adds the time of the append.
\<close>

record message =
  role :: string
  content :: string

record stored_message = message +
  timestamp :: int

record session_metadata =
  userId :: "string option"
  startTime :: int

text \<open>
  Instants are milliseconds since the epoch (\<open>Date.now()\<close>, \<open>getTime()\<close>); the source
  keeps \<open>timestamp\<close> and \<open>startTime\<close> as the ISO rendering of the same instant.
  \<open>lastActivity\<close> is a \<open>Date\<close> object, or absent (\<open>None\<close>).
\<close>

record session =
  messages :: "stored_message list"
  lastActivity :: "int option"
  metadata :: session_metadata

type_synonym sessions = "string \<rightharpoonup> session"

record conversation =
  conv_messages :: "stored_message list"
  conv_metadata :: session_metadata

definition createSession :: "string \<Rightarrow> int \<Rightarrow> string option \<Rightarrow> sessions \<Rightarrow> string \<times> sessions" where
  \<comment> \<open>\<open>cid\<close> is what \<open>uuidv4()\<close> returned and \<open>now\<close> what \<open>new Date()\<close> read\<close>
  "createSession cid now userId' sessions =
     (cid, sessions(cid \<mapsto> \<lparr>messages = [], lastActivity = Some now,
                              metadata = \<lparr>userId = userId', startTime = now\<rparr>\<rparr>))"

definition addMessage :: "int \<Rightarrow> string \<Rightarrow> string \<Rightarrow> string \<Rightarrow> sessions \<Rightarrow> sessions" where
  "addMessage now conversationId role' content' sessions =
     (if conversationId = [] then sessions
      else case sessions conversationId of
             None \<Rightarrow> sessions
           | Some session \<Rightarrow>
               sessions(conversationId \<mapsto>
                 session\<lparr>messages := messages session
                            @ [\<lparr>role = role', content = content', timestamp = now\<rparr>],
                         lastActivity := Some now\<rparr>))"

definition getConversation :: "sessions \<Rightarrow> string \<Rightarrow> conversation option" where
  "getConversation sessions conversationId =
     (case sessions conversationId of
        None \<Rightarrow> None
      | Some session \<Rightarrow>
          Some \<lparr>conv_messages = slice_last 10 (messages session),
                conv_metadata = metadata session\<rparr>)"

definition ONE_HOUR :: int where
  "ONE_HOUR = 60 * 60 * 1000"

text \<open>
  \<open>Map.forEach\<close> visits every entry once, and deleting the visited entry is allowed
  while iterating, so the sweep decides each entry on its own: an entry without
  \<open>lastActivity\<close> is skipped, one whose age exceeds \<open>ONE_HOUR\<close> is deleted.
\<close>

definition cleanupInactive :: "int \<Rightarrow> sessions \<Rightarrow> sessions" where
  "cleanupInactive now sessions =
     (\<lambda>cid. case sessions cid of
             None \<Rightarrow> None
           | Some session \<Rightarrow>
               (case lastActivity session of
                  None \<Rightarrow> Some session
                | Some la \<Rightarrow>
                    (let age = now - la
                     in if age > ONE_HOUR then None else Some session)))"

section \<open>The Ollama client: \<open>generateResponse\<close>\<close>

definition newline :: string where
  "newline = [CHR 0x0A]"

definition renderMessage :: "message \<Rightarrow> string" where
  \<comment> \<open>the callback of \<open>map\<close>, the same in both services\<close>
  "renderMessage m =
     (if role m = ''assistant'' then ''Assistant'' else ''User'') @ '': '' @ content m"

definition historyText :: "message list \<Rightarrow> string" where
  "historyText conversationHistory = join newline (map renderMessage conversationHistory)"

definition fullPrompt :: "string \<Rightarrow> message list \<Rightarrow> string" where
  "fullPrompt prompt conversationHistory =
     prompt @ newline @ newline @ ''Conversation so far:'' @ newline
     @ historyText conversationHistory @ newline @ newline @ ''Assistant:''"

record generate_request =
  model :: string
  prompt :: string
  stream :: bool
  temperature :: real
  num_predict :: nat

definition generateRequest :: "string \<Rightarrow> message list \<Rightarrow> generate_request" where
  \<comment> \<open>the body posted to \<open>/api/generate\<close>\<close>
  "generateRequest prompt' conversationHistory =
     \<lparr>model = ''llama3.2'', prompt = fullPrompt prompt' conversationHistory,
      stream = False, temperature = 0.7, num_predict = 2000\<rparr>"

text \<open>
  The fields of the reply that the client reads; \<open>None\<close> is an absent field.
\<close>

record generate_data =
  data_response :: "string option"
  data_output :: "string option"
  data_message :: "string option"

definition orElse :: "string option \<Rightarrow> string \<Rightarrow> string" where
  \<comment> \<open>\<open>a || b\<close> where \<open>a\<close> is a string or absent: the empty string is falsy\<close>
  "orElse a b = (case a of None \<Rightarrow> b | Some s \<Rightarrow> if s = [] then b else s)"

text \<open>
  \<open>post\<close> is the HTTP call: it throws, or returns the reply's \<open>data\<close> (absent as
  \<open>None\<close>). Whatever is thrown inside the \<open>try\<close> is replaced by one fixed error.
\<close>

definition generateResponse ::
  "(generate_request \<Rightarrow> js_error + generate_data option) \<Rightarrow> string \<Rightarrow> message list
     \<Rightarrow> js_error + string" where
  "generateResponse post prompt' conversationHistory =
     (case post (generateRequest prompt' conversationHistory) of
        Inl e \<Rightarrow> Inl (Error ''Failed to generate response from Ollama.'')
      | Inr None \<Rightarrow> Inl (Error ''Failed to generate response from Ollama.'')
      | Inr (Some data) \<Rightarrow>
          (let text = orElse (data_response data)
                        (orElse (data_output data) (orElse (data_message data) []))
           in if text = [] then Inl (Error ''Failed to generate response from Ollama.'')
              else Inr text))"

section \<open>The RAG service\<close>

subsection \<open>Retrieved documents and \<open>getRelevantContext\<close>\<close>

text \<open>
  A match of the vector index. \<open>score\<close> and \<open>metadata\<close> may be absent (the source
  reads them with \<open>?.\<close>); \<open>doc_id\<close> is the field \<open>id\<close> and \<open>doc_text\<close> the
  field \<open>text\<close> of the metadata.
\<close>

record doc_metadata =
  doc_text :: "string option"
  category :: "string option"
  source :: "string option"

record document =
  doc_id :: string
  score :: "real option"
  metadata :: "doc_metadata option"

type_synonym embedding = "real list"

record context_result =
  contextText :: string
  documents :: "document list"

definition contextPart :: "document \<Rightarrow> nat \<Rightarrow> string" where
  \<comment> \<open>the callback of \<open>matches.map((m, idx) => ...)\<close>\<close>
  "contextPart m idx =
     (let text = (case document.metadata m of
                    None \<Rightarrow> []
                  | Some md \<Rightarrow> orElse (doc_text md) [])
      in ''Source '' @ showNat (idx + 1) @ '' (score: ''
         @ (case score m of None \<Rightarrow> ''n/a'' | Some s \<Rightarrow> toFixed3 s)
         @ ''):'' @ newline @ text)"

definition contextParts :: "document list \<Rightarrow> string list" where
  "contextParts matches =
     map (\<lambda>(m, idx). contextPart m idx) (zip matches [0 ..< length matches])"

text \<open>
  The two providers are parameters: \<open>generateEmbedding\<close> maps the texts to their
  vectors or throws, \<open>searchSimilar\<close> maps the query vector (absent when the
  destructured array is empty) and \<open>topK\<close> to the matches or throws.
\<close>

definition getRelevantContext ::
  "(string list \<Rightarrow> js_error + embedding list)
     \<Rightarrow> (embedding option \<Rightarrow> nat \<Rightarrow> js_error + document list)
     \<Rightarrow> string \<Rightarrow> nat \<Rightarrow> js_error + context_result" where
  "getRelevantContext generateEmbedding searchSimilar userQuery topK =
     (case generateEmbedding [userQuery] of
        Inl e \<Rightarrow> Inl e
      | Inr embeddings \<Rightarrow>
          (let queryEmbedding = (case embeddings of [] \<Rightarrow> None | v # _ \<Rightarrow> Some v)
           in case searchSimilar queryEmbedding topK of
                Inl e \<Rightarrow> Inl e
              | Inr matches \<Rightarrow>
                  Inr \<lparr>contextText = join (newline @ newline) (contextParts matches),
                       documents = matches\<rparr>))"

subsection \<open>\<open>generateRAGResponse\<close>\<close>

datatype confidence_label = Low | Medium | High

record rag_result =
  response :: string
  sources :: "document list"
  confidence :: confidence_label

definition contextResult ::
  "(string list \<Rightarrow> js_error + embedding list)
     \<Rightarrow> (embedding option \<Rightarrow> nat \<Rightarrow> js_error + document list)
     \<Rightarrow> string \<Rightarrow> context_result" where
  \<comment> \<open>the inner \<open>try\<close>: a failed retrieval leaves the initial value\<close>
  "contextResult generateEmbedding searchSimilar userQuery =
     (case getRelevantContext generateEmbedding searchSimilar userQuery 3 of
        Inl contextError \<Rightarrow> \<lparr>contextText = [], documents = []\<rparr>
      | Inr r \<Rightarrow> r)"

definition systemPrompt :: string where
  "systemPrompt =
     ''You are an enterprise AI assistant. Use the following context to answer questions accurately. ''
     @ ''If the context doesn't contain the answer, say that the information is not available in the knowledge base ''
     @ ''and avoid making up facts.''"

definition historyTail :: "message list \<Rightarrow> message list" where
  "historyTail conversationHistory = slice_last 5 conversationHistory"

definition nonEmptyOr :: "string \<Rightarrow> string \<Rightarrow> string" where
  \<comment> \<open>\<open>a || b\<close> on a string \<open>a\<close>\<close>
  "nonEmptyOr a b = (if a = [] then b else a)"

definition ragPromptParts :: "string \<Rightarrow> message list \<Rightarrow> string \<Rightarrow> string list" where
  "ragPromptParts contextText' historyTail' userQuery =
     [''System: '' @ systemPrompt,
      [],
      ''Context documents:'',
      nonEmptyOr contextText' ''[No context available]'',
      [],
      ''Recent conversation:'',
      nonEmptyOr (join newline (map renderMessage historyTail')) ''[No previous conversation]'',
      [],
      ''User question: '' @ userQuery,
      [],
      ''Answer clearly and concisely. If you are unsure, say so explicitly.'']"

definition ragPrompt :: "string \<Rightarrow> message list \<Rightarrow> string \<Rightarrow> string" where
  "ragPrompt contextText' historyTail' userQuery =
     join newline (ragPromptParts contextText' historyTail' userQuery)"

definition scores :: "document list \<Rightarrow> real list" where
  \<comment> \<open>\<open>d.score || 0\<close>: an absent score and the score 0 both give 0\<close>
  "scores documents' =
     map (\<lambda>d. case score d of None \<Rightarrow> 0 | Some x \<Rightarrow> if x = 0 then 0 else x) documents'"

definition maxScore :: "document list \<Rightarrow> real" where
  \<comment> \<open>\<open>Math.max\<close> is only applied to a non-empty array\<close>
  "maxScore documents' =
     (case scores documents' of [] \<Rightarrow> 0 | x # xs \<Rightarrow> fold max xs x)"

definition confidenceOf :: "document list \<Rightarrow> confidence_label" where
  "confidenceOf documents' =
     (if maxScore documents' \<ge> 0.7 then High
      else if maxScore documents' \<ge> 0.4 then Medium
      else Low)"

text \<open>
  The estimator as the specification words it: the maximum score across the documents,
  or 0 when there are none. An absent score counts as 0, as in \<open>scores\<close>. It is
  compared with \<open>maxScore\<close>, which is what the code computes.
\<close>

definition specMaxScore :: "document list \<Rightarrow> real" where
  "specMaxScore documents' =
     (if documents' = [] then 0
      else Max ((\<lambda>d. case score d of None \<Rightarrow> 0 | Some x \<Rightarrow> x) ` set documents'))"

definition fallbackResult :: rag_result where
  "fallbackResult =
     \<lparr>response =
        ''I encountered an error while trying to answer that question using the knowledge base. ''
        @ ''You may try again in a moment, or contact an administrator if the problem persists.'',
      sources = [],
      confidence = Low\<rparr>"

text \<open>
  The body of the outer \<open>try\<close>: the only call that can throw out of it is
  \<open>generateResponse\<close>, which receives the composed prompt and the history tail.
\<close>

definition generateRAGResponse_try ::
  "(string list \<Rightarrow> js_error + embedding list)
     \<Rightarrow> (embedding option \<Rightarrow> nat \<Rightarrow> js_error + document list)
     \<Rightarrow> (string \<Rightarrow> message list \<Rightarrow> js_error + string)
     \<Rightarrow> string \<Rightarrow> message list \<Rightarrow> js_error + rag_result" where
  "generateRAGResponse_try generateEmbedding searchSimilar generateResponse' userQuery conversationHistory =
     (let cr = contextResult generateEmbedding searchSimilar userQuery;
          ht = historyTail conversationHistory
      in case generateResponse' (ragPrompt (contextText cr) ht userQuery) ht of
           Inl e \<Rightarrow> Inl e
         | Inr responseText \<Rightarrow>
             Inr \<lparr>response = responseText,
                  sources = documents cr,
                  confidence = confidenceOf (documents cr)\<rparr>)"

text \<open>
  The function itself: the \<open>catch\<close> turns every error of the body into the fixed
  result. \<open>Inl\<close> would be an error raised to the caller.
\<close>

definition generateRAGResponse ::
  "(string list \<Rightarrow> js_error + embedding list)
     \<Rightarrow> (embedding option \<Rightarrow> nat \<Rightarrow> js_error + document list)
     \<Rightarrow> (string \<Rightarrow> message list \<Rightarrow> js_error + string)
     \<Rightarrow> string \<Rightarrow> message list \<Rightarrow> js_error + rag_result" where
  "generateRAGResponse generateEmbedding searchSimilar generateResponse' userQuery conversationHistory =
     (case generateRAGResponse_try generateEmbedding searchSimilar generateResponse'
             userQuery conversationHistory of
        Inl e \<Rightarrow> Inr fallbackResult
      | Inr r \<Rightarrow> Inr r)"

section \<open>Properties of the JavaScript helpers\<close>

lemma join_Cons: "join sep (x # xs) = x @ (if xs = [] then [] else sep @ join sep xs)"
  by (cases xs) simp_all

lemma join_eq_Nil_iff: "(\<forall>x\<in>set xs. x \<noteq> []) \<Longrightarrow> join sep xs = [] \<longleftrightarrow> xs = []"
  by (cases xs) (simp_all add: join_Cons)

lemma slice_last_split:
  "n \<le> length xs \<Longrightarrow> \<exists>older. xs = older @ slice_last n xs \<and> length (slice_last n xs) = n"
  unfolding slice_last_def
  by (rule exI [of _ "take (length xs - n) xs"]) simp

lemma slice_last_short: "length xs \<le> n \<Longrightarrow> slice_last n xs = xs"
  by (simp add: slice_last_def)

lemma fold_max_Max: "fold max xs (x::real) = Max (set (x # xs))"
  by (rule Max.set_eq_fold [symmetric])

section \<open>Properties of the session manager\<close>

lemma addMessage_appends:
  "sessions cid = Some s \<Longrightarrow> cid \<noteq> [] \<Longrightarrow>
     addMessage now cid r c sessions cid
       = Some (s\<lparr>messages := messages s @ [\<lparr>role = r, content = c, timestamp = now\<rparr>],
                 lastActivity := Some now\<rparr>)"
  by (simp add: addMessage_def)

lemma addMessage_unknown: "sessions cid = None \<Longrightarrow> addMessage now cid r c sessions = sessions"
  by (simp add: addMessage_def)

text \<open>
  Claim C4. For a conversation of the store that holds more than 10 messages,
  \<open>getConversation\<close> returns exactly its last 10 messages, in the order in which
  they were appended, together with the conversation's metadata; for an id that is not
  in the store it returns the not-found value \<open>null\<close> (\<open>None\<close>) and raises nothing.
\<close>

theorem getConversation_last_ten:
  "(sessions cid = Some s \<and> length (messages s) > 10 \<longrightarrow>
      (\<exists>older recent. messages s = older @ recent \<and> length recent = 10 \<and>
         getConversation sessions cid
           = Some \<lparr>conv_messages = recent, conv_metadata = session.metadata s\<rparr>))
   \<and> (sessions cid = None \<longrightarrow> getConversation sessions cid = None)"
proof (intro conjI impI)
  assume a: "sessions cid = Some s \<and> length (messages s) > 10"
  then obtain older where o: "messages s = older @ slice_last 10 (messages s)"
    and l: "length (slice_last 10 (messages s)) = 10"
    using slice_last_split [of 10 "messages s"] by auto
  have "getConversation sessions cid
          = Some \<lparr>conv_messages = slice_last 10 (messages s), conv_metadata = session.metadata s\<rparr>"
    using a by (simp add: getConversation_def)
  with o l show "\<exists>older recent. messages s = older @ recent \<and> length recent = 10 \<and>
         getConversation sessions cid
           = Some \<lparr>conv_messages = recent, conv_metadata = session.metadata s\<rparr>"
    by blast
next
  assume "sessions cid = None"
  then show "getConversation sessions cid = None"
    by (simp add: getConversation_def)
qed

theorem getConversation_last_ten_witness:
  "([''c1'' \<mapsto> \<lparr>messages = map (\<lambda>i. \<lparr>role = ''user'', content = ''m'', timestamp = int i\<rparr>) [0 ..< 12],
                   lastActivity = Some 11, metadata = \<lparr>userId = None, startTime = 0\<rparr>\<rparr>] ''c1''
      = Some \<lparr>messages = map (\<lambda>i. \<lparr>role = ''user'', content = ''m'', timestamp = int i\<rparr>) [0 ..< 12],
                lastActivity = Some 11, metadata = \<lparr>userId = None, startTime = 0\<rparr>\<rparr>
    \<and> length (map (\<lambda>i. \<lparr>role = ''user'', content = ''m'', timestamp = int i\<rparr>) [0 ..< 12]) > 10)
   \<and> getConversation
         [''c1'' \<mapsto> \<lparr>messages = map (\<lambda>i. \<lparr>role = ''user'', content = ''m'', timestamp = int i\<rparr>) [0 ..< 12],
                   lastActivity = Some 11, metadata = \<lparr>userId = None, startTime = 0\<rparr>\<rparr>] ''c1''
       = Some \<lparr>conv_messages = drop 2 (map (\<lambda>i. \<lparr>role = ''user'', content = ''m'', timestamp = int i\<rparr>) [0 ..< 12]),
                 conv_metadata = \<lparr>userId = None, startTime = 0\<rparr>\<rparr>
   \<and> getConversation
         [''c1'' \<mapsto> \<lparr>messages = map (\<lambda>i. \<lparr>role = ''user'', content = ''m'', timestamp = int i\<rparr>) [0 ..< 12],
                   lastActivity = Some 11, metadata = \<lparr>userId = None, startTime = 0\<rparr>\<rparr>] ''c2'' = None"
  using getConversation_last_ten
    [of "[''c1'' \<mapsto> \<lparr>messages = map (\<lambda>i. \<lparr>role = ''user'', content = ''m'', timestamp = int i\<rparr>) [0 ..< 12],
                   lastActivity = Some 11, metadata = \<lparr>userId = None, startTime = 0\<rparr>\<rparr>]" "''c1''"
        "\<lparr>messages = map (\<lambda>i. \<lparr>role = ''user'', content = ''m'', timestamp = int i\<rparr>) [0 ..< 12],
                   lastActivity = Some 11, metadata = \<lparr>userId = None, startTime = 0\<rparr>\<rparr>"]
    getConversation_last_ten
    [of "[''c1'' \<mapsto> \<lparr>messages = map (\<lambda>i. \<lparr>role = ''user'', content = ''m'', timestamp = int i\<rparr>) [0 ..< 12],
                   lastActivity = Some 11, metadata = \<lparr>userId = None, startTime = 0\<rparr>\<rparr>]" "''c2''"]
  by (simp add: getConversation_def slice_last_def)

text \<open>
  Claim C8. After one run of the sweep at time \<open>now\<close>, a conversation whose
  \<open>lastActivity\<close> is more than one hour (3600000 ms) old is absent from the store,
  and a conversation whose \<open>lastActivity\<close> is less than one hour old is still
  present, with its state unchanged.
\<close>

theorem cleanupInactive_expiry:
  "sessions cid = Some s \<Longrightarrow> lastActivity s = Some la \<Longrightarrow>
     (now - la > 3600000 \<longrightarrow> cleanupInactive now sessions cid = None)
     \<and> (now - la < 3600000 \<longrightarrow> cleanupInactive now sessions cid = Some s)"
  by (simp add: cleanupInactive_def ONE_HOUR_def)

theorem cleanupInactive_expiry_witness:
  "cleanupInactive 10000000
     [''old'' \<mapsto> \<lparr>messages = [], lastActivity = Some 1000, metadata = \<lparr>userId = None, startTime = 1000\<rparr>\<rparr>,
      ''new'' \<mapsto> \<lparr>messages = [], lastActivity = Some 9000000, metadata = \<lparr>userId = None, startTime = 1000\<rparr>\<rparr>]
     ''old'' = None
   \<and> cleanupInactive 10000000
     [''old'' \<mapsto> \<lparr>messages = [], lastActivity = Some 1000, metadata = \<lparr>userId = None, startTime = 1000\<rparr>\<rparr>,
      ''new'' \<mapsto> \<lparr>messages = [], lastActivity = Some 9000000, metadata = \<lparr>userId = None, startTime = 1000\<rparr>\<rparr>]
     ''new'' = Some \<lparr>messages = [], lastActivity = Some 9000000, metadata = \<lparr>userId = None, startTime = 1000\<rparr>\<rparr>"
  using cleanupInactive_expiry
    [of "[''old'' \<mapsto> \<lparr>messages = [], lastActivity = Some 1000, metadata = \<lparr>userId = None, startTime = 1000\<rparr>\<rparr>,
      ''new'' \<mapsto> \<lparr>messages = [], lastActivity = Some 9000000, metadata = \<lparr>userId = None, startTime = 1000\<rparr>\<rparr>]"
        "''old''" "\<lparr>messages = [], lastActivity = Some 1000, metadata = \<lparr>userId = None, startTime = 1000\<rparr>\<rparr>"
        1000 10000000]
    cleanupInactive_expiry
    [of "[''old'' \<mapsto> \<lparr>messages = [], lastActivity = Some 1000, metadata = \<lparr>userId = None, startTime = 1000\<rparr>\<rparr>,
      ''new'' \<mapsto> \<lparr>messages = [], lastActivity = Some 9000000, metadata = \<lparr>userId = None, startTime = 1000\<rparr>\<rparr>]"
        "''new''" "\<lparr>messages = [], lastActivity = Some 9000000, metadata = \<lparr>userId = None, startTime = 1000\<rparr>\<rparr>"
        9000000 10000000]
  by simp

text \<open>
  Claim C10. The sweep removes exactly the conversations whose age strictly exceeds one
  hour: a conversation is absent afterwards only if it was absent before or its
  \<open>lastActivity\<close> is more than 3600000 ms old. A conversation whose \<open>lastActivity\<close>
  is exactly one hour before the sweep, and one without \<open>lastActivity\<close>, are kept.
\<close>

theorem cleanupInactive_strict:
  "(cleanupInactive now sessions cid = None \<longleftrightarrow>
      sessions cid = None
      \<or> (\<exists>s la. sessions cid = Some s \<and> lastActivity s = Some la \<and> now - la > 3600000))
   \<and> (sessions cid = Some s \<and> lastActivity s = Some (now - 3600000)
        \<longrightarrow> cleanupInactive now sessions cid = Some s)
   \<and> (sessions cid = Some s \<and> lastActivity s = None
        \<longrightarrow> cleanupInactive now sessions cid = Some s)"
  by (auto simp add: cleanupInactive_def ONE_HOUR_def Let_def split: option.splits if_splits)

theorem cleanupInactive_strict_witness:
  "cleanupInactive 3600000
     [''edge'' \<mapsto> \<lparr>messages = [], lastActivity = Some 0, metadata = \<lparr>userId = None, startTime = 0\<rparr>\<rparr>,
      ''nodate'' \<mapsto> \<lparr>messages = [], lastActivity = None, metadata = \<lparr>userId = None, startTime = 0\<rparr>\<rparr>]
     ''edge'' = Some \<lparr>messages = [], lastActivity = Some 0, metadata = \<lparr>userId = None, startTime = 0\<rparr>\<rparr>
   \<and> cleanupInactive 3600000
     [''edge'' \<mapsto> \<lparr>messages = [], lastActivity = Some 0, metadata = \<lparr>userId = None, startTime = 0\<rparr>\<rparr>,
      ''nodate'' \<mapsto> \<lparr>messages = [], lastActivity = None, metadata = \<lparr>userId = None, startTime = 0\<rparr>\<rparr>]
     ''nodate'' = Some \<lparr>messages = [], lastActivity = None, metadata = \<lparr>userId = None, startTime = 0\<rparr>\<rparr>
   \<and> cleanupInactive 3600001
     [''edge'' \<mapsto> \<lparr>messages = [], lastActivity = Some 0, metadata = \<lparr>userId = None, startTime = 0\<rparr>\<rparr>,
      ''nodate'' \<mapsto> \<lparr>messages = [], lastActivity = None, metadata = \<lparr>userId = None, startTime = 0\<rparr>\<rparr>]
     ''edge'' = None"
  using cleanupInactive_strict
    [of 3600000 "[''edge'' \<mapsto> \<lparr>messages = [], lastActivity = Some 0, metadata = \<lparr>userId = None, startTime = 0\<rparr>\<rparr>,
      ''nodate'' \<mapsto> \<lparr>messages = [], lastActivity = None, metadata = \<lparr>userId = None, startTime = 0\<rparr>\<rparr>]"
        "''edge''" "\<lparr>messages = [], lastActivity = Some 0, metadata = \<lparr>userId = None, startTime = 0\<rparr>\<rparr>"]
    cleanupInactive_strict
    [of 3600000 "[''edge'' \<mapsto> \<lparr>messages = [], lastActivity = Some 0, metadata = \<lparr>userId = None, startTime = 0\<rparr>\<rparr>,
      ''nodate'' \<mapsto> \<lparr>messages = [], lastActivity = None, metadata = \<lparr>userId = None, startTime = 0\<rparr>\<rparr>]"
        "''nodate''" "\<lparr>messages = [], lastActivity = None, metadata = \<lparr>userId = None, startTime = 0\<rparr>\<rparr>"]
    cleanupInactive_strict
    [of 3600001 "[''edge'' \<mapsto> \<lparr>messages = [], lastActivity = Some 0, metadata = \<lparr>userId = None, startTime = 0\<rparr>\<rparr>,
      ''nodate'' \<mapsto> \<lparr>messages = [], lastActivity = None, metadata = \<lparr>userId = None, startTime = 0\<rparr>\<rparr>]"
        "''edge''"]
  by simp

section \<open>Properties of the RAG service\<close>

lemma renderMessage_nonempty: "renderMessage m \<noteq> []"
  by (simp add: renderMessage_def)

lemma renderMessage_cases:
  "renderMessage m = ''User: '' @ content m \<or> renderMessage m = ''Assistant: '' @ content m"
  by (simp add: renderMessage_def)

lemma historyText_eq_Nil_iff: "join newline (map renderMessage ht) = [] \<longleftrightarrow> ht = []"
  using join_eq_Nil_iff [of "map renderMessage ht" newline]
  by (simp add: renderMessage_nonempty)

lemma ragPrompt_text:
  "ragPrompt ctx ht q =
     ''System: '' @ systemPrompt @ newline
     @ newline
     @ ''Context documents:'' @ newline
     @ (if ctx = [] then ''[No context available]'' else ctx) @ newline
     @ newline
     @ ''Recent conversation:'' @ newline
     @ (if ht = [] then ''[No previous conversation]'' else join newline (map renderMessage ht)) @ newline
     @ newline
     @ ''User question: '' @ q @ newline
     @ newline
     @ ''Answer clearly and concisely. If you are unsure, say so explicitly.''"
  by (simp add: ragPrompt_def ragPromptParts_def nonEmptyOr_def historyText_eq_Nil_iff)

lemma generateRAGResponse_cases:
  "generateRAGResponse gE sS gR q h =
     (case gR (ragPrompt (contextText (contextResult gE sS q)) (historyTail h) q) (historyTail h) of
        Inl e \<Rightarrow> Inr fallbackResult
      | Inr t \<Rightarrow> Inr \<lparr>response = t, sources = documents (contextResult gE sS q),
                        confidence = confidenceOf (documents (contextResult gE sS q))\<rparr>)"
  by (simp add: generateRAGResponse_def generateRAGResponse_try_def Let_def split: sum.splits)

lemma generateResponse_throws:
  "post (generateRequest p ht) = Inl e \<Longrightarrow> \<exists>e'. generateResponse post p ht = Inl e'"
  by (simp add: generateResponse_def)

text \<open>
  Claim C1. For every query and history and every behaviour of the embedding, index and
  generation providers (each may throw), \<open>generateRAGResponse\<close> returns a result
  record and raises nothing to its caller. When the generation provider throws on the
  composed prompt, the result is the fixed apology text with no sources and confidence
  \<open>low\<close>; so it is when the HTTP call of \<open>generateResponse\<close> always throws.
\<close>

theorem generateRAGResponse_never_raises:
  "(\<exists>r. generateRAGResponse gE sS gR q h = Inr r)
   \<and> ((\<exists>e. gR (ragPrompt (contextText (contextResult gE sS q)) (historyTail h) q) (historyTail h) = Inl e)
        \<longrightarrow> generateRAGResponse gE sS gR q h
              = Inr \<lparr>response =
                       ''I encountered an error while trying to answer that question using the knowledge base. ''
                       @ ''You may try again in a moment, or contact an administrator if the problem persists.'',
                     sources = [], confidence = Low\<rparr>)
   \<and> ((\<forall>req. \<exists>e. post req = Inl e)
        \<longrightarrow> generateRAGResponse gE sS (generateResponse post) q h = Inr fallbackResult)"
proof (intro conjI impI)
  show "\<exists>r. generateRAGResponse gE sS gR q h = Inr r"
    by (simp add: generateRAGResponse_def split: sum.splits)
next
  assume "\<exists>e. gR (ragPrompt (contextText (contextResult gE sS q)) (historyTail h) q) (historyTail h) = Inl e"
  then show "generateRAGResponse gE sS gR q h
              = Inr \<lparr>response =
                       ''I encountered an error while trying to answer that question using the knowledge base. ''
                       @ ''You may try again in a moment, or contact an administrator if the problem persists.'',
                     sources = [], confidence = Low\<rparr>"
    by (auto simp add: generateRAGResponse_cases fallbackResult_def)
next
  assume a: "\<forall>req. \<exists>e. post req = Inl e"
  let ?p = "ragPrompt (contextText (contextResult gE sS q)) (historyTail h) q"
  from a obtain e where "post (generateRequest ?p (historyTail h)) = Inl e" by blast
  then obtain e' where "generateResponse post ?p (historyTail h) = Inl e'"
    using generateResponse_throws by blast
  then show "generateRAGResponse gE sS (generateResponse post) q h = Inr fallbackResult"
    by (simp add: generateRAGResponse_cases)
qed

theorem generateRAGResponse_never_raises_witness:
  "(\<exists>e. (\<lambda>p ht. Inl (Error ''model down''))
           (ragPrompt (contextText (contextResult (\<lambda>ts. Inl (Error ''no embedding'')) (\<lambda>v k. Inl (Error ''no index'')) ''hi''))
              (historyTail []) ''hi'') (historyTail []) = (Inl e :: js_error + string))
   \<and> generateRAGResponse (\<lambda>ts. Inl (Error ''no embedding'')) (\<lambda>v k. Inl (Error ''no index''))
         (\<lambda>p ht. Inl (Error ''model down'')) ''hi'' []
       = Inr \<lparr>response =
                ''I encountered an error while trying to answer that question using the knowledge base. ''
                @ ''You may try again in a moment, or contact an administrator if the problem persists.'',
              sources = [], confidence = Low\<rparr>"
  using generateRAGResponse_never_raises
    [of "\<lambda>ts. Inl (Error ''no embedding'')" "\<lambda>v k. Inl (Error ''no index'')"
        "\<lambda>p ht. Inl (Error ''model down'')" "''hi''" "[]"]
  by simp

text \<open>
  Claim C7. When the retrieval step fails (the embedding call throws, or the index query
  throws), the orchestrator goes on with the empty context text and no documents, and
  still returns a result, whose sources are empty and whose confidence is \<open>low\<close>; when
  the generation provider answers, the result carries that answer. The retrieval error
  is not raised to the caller.
\<close>

theorem retrieval_failure_degrades:
  "(\<exists>e. gE [q] = Inl e)
     \<or> (\<exists>vs e. gE [q] = Inr vs \<and> sS (case vs of [] \<Rightarrow> None | v # _ \<Rightarrow> Some v) 3 = Inl e) \<Longrightarrow>
   contextResult gE sS q = \<lparr>contextText = [], documents = []\<rparr>
   \<and> (\<exists>r. generateRAGResponse gE sS gR q h = Inr r \<and> sources r = [] \<and> confidence r = Low)
   \<and> (\<forall>t. gR (ragPrompt [] (historyTail h) q) (historyTail h) = Inr t \<longrightarrow>
          generateRAGResponse gE sS gR q h = Inr \<lparr>response = t, sources = [], confidence = Low\<rparr>)"
proof -
  assume a: "(\<exists>e. gE [q] = Inl e)
     \<or> (\<exists>vs e. gE [q] = Inr vs \<and> sS (case vs of [] \<Rightarrow> None | v # _ \<Rightarrow> Some v) 3 = Inl e)"
  then have "\<exists>e. getRelevantContext gE sS q 3 = Inl e"
    by (auto simp add: getRelevantContext_def)
  then have cr: "contextResult gE sS q = \<lparr>contextText = [], documents = []\<rparr>"
    by (auto simp add: contextResult_def)
  have low: "confidenceOf [] = Low"
    by (simp add: confidenceOf_def maxScore_def scores_def)
  have r: "\<exists>r. generateRAGResponse gE sS gR q h = Inr r \<and> sources r = [] \<and> confidence r = Low"
    by (simp add: generateRAGResponse_cases cr low fallbackResult_def split: sum.splits)
  have g: "\<forall>t. gR (ragPrompt [] (historyTail h) q) (historyTail h) = Inr t \<longrightarrow>
          generateRAGResponse gE sS gR q h = Inr \<lparr>response = t, sources = [], confidence = Low\<rparr>"
    by (simp add: generateRAGResponse_cases cr low)
  from cr r g show ?thesis by blast
qed

theorem retrieval_failure_degrades_witness:
  "((\<exists>e. (\<lambda>ts. Inr [[0.1, 0.2]]) [''hi''] = (Inl e :: js_error + embedding list))
     \<or> (\<exists>vs e. (\<lambda>ts. Inr [[0.1, 0.2]]) [''hi''] = (Inr vs :: js_error + embedding list)
            \<and> (\<lambda>v k. Inl (Error ''index unreachable'')) (case vs of [] \<Rightarrow> None | v # _ \<Rightarrow> Some v) (3::nat)
                = (Inl e :: js_error + document list)))
   \<and> generateRAGResponse (\<lambda>ts. Inr [[0.1, 0.2]]) (\<lambda>v k. Inl (Error ''index unreachable''))
         (\<lambda>p ht. Inr ''I do not know.'') ''hi'' []
       = Inr \<lparr>response = ''I do not know.'', sources = [], confidence = Low\<rparr>"
  using retrieval_failure_degrades
    [of "\<lambda>ts. Inr [[0.1, 0.2]]" "''hi''" "\<lambda>v k. Inl (Error ''index unreachable'')"
        "\<lambda>p ht. Inr ''I do not know.''" "[]"]
  by simp

lemma scores_plain: "scores ds = map (\<lambda>d. case score d of None \<Rightarrow> 0 | Some x \<Rightarrow> x) ds"
  by (simp add: scores_def split: option.splits)

lemma maxScore_Max: "ds \<noteq> [] \<Longrightarrow> maxScore ds = Max (set (scores ds))"
proof -
  assume "ds \<noteq> []"
  then obtain x xs where c: "scores ds = x # xs"
    by (cases ds) (simp_all add: scores_def)
  have "maxScore ds = fold max xs x"
    by (simp add: maxScore_def c)
  also have "\<dots> = Max (set (x # xs))"
    by (rule fold_max_Max)
  finally show ?thesis
    by (simp only: c)
qed

lemma maxScore_spec: "maxScore ds = specMaxScore ds"
proof (cases "ds = []")
  case True
  then show ?thesis by (simp add: maxScore_def scores_def specMaxScore_def)
next
  case False
  then show ?thesis
    by (simp add: maxScore_Max specMaxScore_def scores_plain)
qed

lemma contextParts_length: "length (contextParts matches) = length matches"
  by (simp add: contextParts_def)

lemma contextParts_nth:
  "i < length matches \<Longrightarrow> contextParts matches ! i = contextPart (matches ! i) i"
  by (simp add: contextParts_def)

lemma contextPart_header:
  "\<exists>text. contextPart m i =
     ''Source '' @ showNat (i + 1) @ '' (score: ''
     @ (case score m of None \<Rightarrow> ''n/a'' | Some s \<Rightarrow> toFixed3 s) @ ''):'' @ newline @ text
     \<and> ((document.metadata m = None \<or> (\<exists>md. document.metadata m = Some md \<and> doc_text md = None))
          \<longrightarrow> text = [])"
  by (auto simp add: contextPart_def orElse_def split: option.splits)

lemma contextText_starts:
  "matches \<noteq> [] \<Longrightarrow> \<exists>rest. join sep (contextParts matches) = ''Source '' @ rest"
proof -
  assume "matches \<noteq> []"
  then have ne: "contextParts matches \<noteq> []"
    using contextParts_length [of matches] by auto
  then obtain x xs where c: "contextParts matches = x # xs"
    by (cases "contextParts matches") auto
  have "x = contextParts matches ! 0" by (simp add: c)
  also have "\<dots> = contextPart (matches ! 0) 0"
    using \<open>matches \<noteq> []\<close> by (simp add: contextParts_nth)
  finally obtain r where "x = ''Source '' @ r"
    using contextPart_header [of "matches ! 0" 0] by auto
  then show ?thesis
    by (simp add: c join_Cons)
qed

lemma fullPrompt_text:
  "generate_request.prompt (generateRequest p ht) =
     p @ newline @ newline @ ''Conversation so far:'' @ newline
     @ join newline (map renderMessage ht) @ newline @ newline @ ''Assistant:''"
  by (simp add: generateRequest_def fullPrompt_def historyText_def)

text \<open>
  Claim C3. For every list of retrieved documents the confidence label is \<open>high\<close> when
  the maximum score is at least 0.7, \<open>medium\<close> when it is at least 0.4 and below 0.7,
  and \<open>low\<close> otherwise, where the maximum score of the empty list is 0, so that the
  empty list gives \<open>low\<close>. Scores are real numbers and the literals 0.7 and 0.4 are
  read as the reals they denote.
\<close>

theorem confidenceOf_thresholds:
  "confidenceOf ds =
     (if specMaxScore ds \<ge> 0.7 then High
      else if specMaxScore ds \<ge> 0.4 then Medium
      else Low)
   \<and> specMaxScore [] = 0 \<and> confidenceOf [] = Low"
  by (simp add: confidenceOf_def maxScore_spec) (simp add: specMaxScore_def)

theorem confidenceOf_thresholds_witness:
  "confidenceOf [\<lparr>doc_id = ''a'', score = Some 0.71, metadata = None\<rparr>] = High
   \<and> confidenceOf [\<lparr>doc_id = ''a'', score = Some 0.55, metadata = None\<rparr>] = Medium
   \<and> confidenceOf [\<lparr>doc_id = ''a'', score = Some 0.1, metadata = None\<rparr>] = Low
   \<and> confidenceOf [\<lparr>doc_id = ''a'', score = Some 0.3, metadata = None\<rparr>,
                    \<lparr>doc_id = ''b'', score = Some 0.7, metadata = None\<rparr>,
                    \<lparr>doc_id = ''c'', score = None, metadata = None\<rparr>] = High
   \<and> confidenceOf [] = Low"
  using confidenceOf_thresholds [of "[\<lparr>doc_id = ''a'', score = Some 0.71, metadata = None\<rparr>]"]
        confidenceOf_thresholds [of "[\<lparr>doc_id = ''a'', score = Some 0.55, metadata = None\<rparr>]"]
        confidenceOf_thresholds [of "[\<lparr>doc_id = ''a'', score = Some 0.1, metadata = None\<rparr>]"]
        confidenceOf_thresholds [of "[\<lparr>doc_id = ''a'', score = Some 0.3, metadata = None\<rparr>,
                    \<lparr>doc_id = ''b'', score = Some 0.7, metadata = None\<rparr>,
                    \<lparr>doc_id = ''c'', score = None, metadata = None\<rparr>]"]
  by (simp add: specMaxScore_def)

text \<open>
  Claim C5. For a history of more than 5 entries, the section of the composed prompt
  under the header \<open>Recent conversation:\<close> consists of exactly the last 5 entries,
  oldest first, one line each, a line being \<open>User: <content>\<close> or
  \<open>Assistant: <content>\<close>; the earlier entries are not in it.
\<close>

theorem history_truncated_to_five:
  "length h > 5 \<Longrightarrow>
   \<exists>older recent.
      h = older @ recent \<and> length recent = 5 \<and> historyTail h = recent
      \<and> ragPromptParts ctx (historyTail h) q ! 5 = ''Recent conversation:''
      \<and> ragPromptParts ctx (historyTail h) q ! 6 = join newline (map renderMessage recent)
      \<and> (\<forall>m \<in> set recent. renderMessage m = ''User: '' @ content m
                              \<or> renderMessage m = ''Assistant: '' @ content m)
      \<and> ragPrompt ctx (historyTail h) q =
          ''System: '' @ systemPrompt @ newline
          @ newline
          @ ''Context documents:'' @ newline
          @ (if ctx = [] then ''[No context available]'' else ctx) @ newline
          @ newline
          @ ''Recent conversation:'' @ newline
          @ join newline (map renderMessage recent) @ newline
          @ newline
          @ ''User question: '' @ q @ newline
          @ newline
          @ ''Answer clearly and concisely. If you are unsure, say so explicitly.''"
proof -
  assume a: "length h > 5"
  then obtain older where o: "h = older @ historyTail h" and l: "length (historyTail h) = 5"
    using slice_last_split [of 5 h] by (auto simp add: historyTail_def)
  from l have ne: "historyTail h \<noteq> []" by auto
  then have j: "join newline (map renderMessage (historyTail h)) \<noteq> []"
    by (simp add: historyText_eq_Nil_iff)
  have p5: "ragPromptParts ctx (historyTail h) q ! 5 = ''Recent conversation:''"
    by (simp add: ragPromptParts_def)
  have p6: "ragPromptParts ctx (historyTail h) q ! 6 = join newline (map renderMessage (historyTail h))"
    using j by (simp add: ragPromptParts_def nonEmptyOr_def)
  have r: "\<forall>m \<in> set (historyTail h). renderMessage m = ''User: '' @ content m
                              \<or> renderMessage m = ''Assistant: '' @ content m"
    using renderMessage_cases by blast
  have t: "ragPrompt ctx (historyTail h) q =
          ''System: '' @ systemPrompt @ newline
          @ newline
          @ ''Context documents:'' @ newline
          @ (if ctx = [] then ''[No context available]'' else ctx) @ newline
          @ newline
          @ ''Recent conversation:'' @ newline
          @ join newline (map renderMessage (historyTail h)) @ newline
          @ newline
          @ ''User question: '' @ q @ newline
          @ newline
          @ ''Answer clearly and concisely. If you are unsure, say so explicitly.''"
    using ne by (simp add: ragPrompt_text)
  from o l p5 p6 r t show ?thesis by blast
qed

theorem history_truncated_to_five_witness:
  "length [\<lparr>role = ''user'', content = ''q1''\<rparr>, \<lparr>role = ''assistant'', content = ''a1''\<rparr>,
           \<lparr>role = ''user'', content = ''q2''\<rparr>, \<lparr>role = ''assistant'', content = ''a2''\<rparr>,
           \<lparr>role = ''user'', content = ''q3''\<rparr>, \<lparr>role = ''assistant'', content = ''a3''\<rparr>,
           \<lparr>role = ''system'', content = ''q4''\<rparr>] > 5
   \<and> ragPromptParts ''ctx''
         (historyTail [\<lparr>role = ''user'', content = ''q1''\<rparr>, \<lparr>role = ''assistant'', content = ''a1''\<rparr>,
           \<lparr>role = ''user'', content = ''q2''\<rparr>, \<lparr>role = ''assistant'', content = ''a2''\<rparr>,
           \<lparr>role = ''user'', content = ''q3''\<rparr>, \<lparr>role = ''assistant'', content = ''a3''\<rparr>,
           \<lparr>role = ''system'', content = ''q4''\<rparr>]) ''hi'' ! 6
       = ''User: q2'' @ newline @ ''Assistant: a2'' @ newline @ ''User: q3'' @ newline
         @ ''Assistant: a3'' @ newline @ ''User: q4''"
  using history_truncated_to_five
    [of "[\<lparr>role = ''user'', content = ''q1''\<rparr>, \<lparr>role = ''assistant'', content = ''a1''\<rparr>,
           \<lparr>role = ''user'', content = ''q2''\<rparr>, \<lparr>role = ''assistant'', content = ''a2''\<rparr>,
           \<lparr>role = ''user'', content = ''q3''\<rparr>, \<lparr>role = ''assistant'', content = ''a3''\<rparr>,
           \<lparr>role = ''system'', content = ''q4''\<rparr>]" "''ctx''" "''hi''"]
  by (simp add: historyTail_def slice_last_def renderMessage_def)

text \<open>
  Claim C6. When the context text is empty, the context section of the composed prompt is
  the literal \<open>[No context available]\<close>, and when the recent history is empty, the
  history section is the literal \<open>[No previous conversation]\<close>; neither section is
  left empty.
\<close>

theorem placeholders:
  "ragPromptParts [] ht q ! 2 = ''Context documents:''
   \<and> ragPromptParts [] ht q ! 3 = ''[No context available]''
   \<and> ragPromptParts ctx [] q ! 5 = ''Recent conversation:''
   \<and> ragPromptParts ctx [] q ! 6 = ''[No previous conversation]''
   \<and> historyTail [] = []
   \<and> ragPrompt [] [] q =
       ''System: '' @ systemPrompt @ newline
       @ newline
       @ ''Context documents:'' @ newline
       @ ''[No context available]'' @ newline
       @ newline
       @ ''Recent conversation:'' @ newline
       @ ''[No previous conversation]'' @ newline
       @ newline
       @ ''User question: '' @ q @ newline
       @ newline
       @ ''Answer clearly and concisely. If you are unsure, say so explicitly.''"
  by (simp add: ragPromptParts_def nonEmptyOr_def historyTail_def slice_last_def ragPrompt_text)

text \<open>
  Claim C9. When the retrieval returns at least one match, the context section of the
  composed prompt is the rendered context text and never the placeholder
  \<open>[No context available]\<close>: every match contributes the header line
  \<open>Source <rank> (score: <score>):\<close>, followed by an empty text when its metadata or the
  text field is missing, so the rendered text is not empty.
\<close>

theorem context_never_placeholder:
  "gE [q] = Inr vs \<Longrightarrow> sS (case vs of [] \<Rightarrow> None | v # _ \<Rightarrow> Some v) 3 = Inr matches \<Longrightarrow>
   matches \<noteq> [] \<Longrightarrow>
   contextResult gE sS q
     = \<lparr>contextText = join (newline @ newline) (contextParts matches), documents = matches\<rparr>
   \<and> contextText (contextResult gE sS q) \<noteq> []
   \<and> ragPromptParts (contextText (contextResult gE sS q)) ht q ! 3
       = contextText (contextResult gE sS q)
   \<and> ragPromptParts (contextText (contextResult gE sS q)) ht q ! 3 \<noteq> ''[No context available]''
   \<and> length (contextParts matches) = length matches
   \<and> (\<forall>i < length matches. \<exists>text.
          contextParts matches ! i =
            ''Source '' @ showNat (i + 1) @ '' (score: ''
            @ (case score (matches ! i) of None \<Rightarrow> ''n/a'' | Some s \<Rightarrow> toFixed3 s)
            @ ''):'' @ newline @ text
          \<and> ((document.metadata (matches ! i) = None
                \<or> (\<exists>md. document.metadata (matches ! i) = Some md \<and> doc_text md = None))
               \<longrightarrow> text = []))"
proof -
  assume e: "gE [q] = Inr vs"
    and s: "sS (case vs of [] \<Rightarrow> None | v # _ \<Rightarrow> Some v) 3 = Inr matches"
    and ne: "matches \<noteq> []"
  let ?ct = "join (newline @ newline) (contextParts matches)"
  have cr: "contextResult gE sS q = \<lparr>contextText = ?ct, documents = matches\<rparr>"
    using e s by (simp add: contextResult_def getRelevantContext_def)
  obtain rest where st: "?ct = ''Source '' @ rest"
    using contextText_starts [OF ne] by blast
  have n1: "?ct \<noteq> []" and n2: "?ct \<noteq> ''[No context available]''"
    by (simp_all add: st)
  have p3: "ragPromptParts ?ct ht q ! 3 = ?ct"
    using n1 by (simp add: ragPromptParts_def nonEmptyOr_def)
  have hd: "\<forall>i < length matches. \<exists>text.
          contextParts matches ! i =
            ''Source '' @ showNat (i + 1) @ '' (score: ''
            @ (case score (matches ! i) of None \<Rightarrow> ''n/a'' | Some s \<Rightarrow> toFixed3 s)
            @ ''):'' @ newline @ text
          \<and> ((document.metadata (matches ! i) = None
                \<or> (\<exists>md. document.metadata (matches ! i) = Some md \<and> doc_text md = None))
               \<longrightarrow> text = [])"
    using contextPart_header by (simp add: contextParts_nth)
  show ?thesis
    using n1 n2 p3 hd by (simp add: cr contextParts_length)
qed

theorem context_never_placeholder_witness:
  "(\<lambda>ts. Inr [[0.1, 0.2]]) [''pto?''] = (Inr [[0.1, 0.2]] :: js_error + embedding list)
   \<and> (\<lambda>v k. Inr [\<lparr>doc_id = ''d1'', score = Some 0.82,
                       metadata = Some \<lparr>doc_text = None, category = None, source = None\<rparr>\<rparr>,
                     \<lparr>doc_id = ''d2'', score = None, metadata = None\<rparr>])
        (case [[0.1, 0.2]] of [] \<Rightarrow> None | v # _ \<Rightarrow> Some v) (3::nat)
       = (Inr [\<lparr>doc_id = ''d1'', score = Some 0.82,
                 metadata = Some \<lparr>doc_text = None, category = None, source = None\<rparr>\<rparr>,
               \<lparr>doc_id = ''d2'', score = None, metadata = None\<rparr>] :: js_error + document list)
   \<and> ragPromptParts
         (contextText (contextResult (\<lambda>ts. Inr [[0.1, 0.2]])
            (\<lambda>v k. Inr [\<lparr>doc_id = ''d1'', score = Some 0.82,
                       metadata = Some \<lparr>doc_text = None, category = None, source = None\<rparr>\<rparr>,
                     \<lparr>doc_id = ''d2'', score = None, metadata = None\<rparr>]) ''pto?'')) [] ''pto?'' ! 3
       = ''Source 1 (score: 0.820):'' @ newline @ newline @ newline @ ''Source 2 (score: n/a):'' @ newline"
  using context_never_placeholder
    [of "\<lambda>ts. Inr [[0.1, 0.2]]" "''pto?''" "[[0.1, 0.2]]"
        "\<lambda>v k. Inr [\<lparr>doc_id = ''d1'', score = Some 0.82,
                       metadata = Some \<lparr>doc_text = None, category = None, source = None\<rparr>\<rparr>,
                     \<lparr>doc_id = ''d2'', score = None, metadata = None\<rparr>]"
        "[\<lparr>doc_id = ''d1'', score = Some 0.82,
                 metadata = Some \<lparr>doc_text = None, category = None, source = None\<rparr>\<rparr>,
               \<lparr>doc_id = ''d2'', score = None, metadata = None\<rparr>]" "[]"]
  by (simp add: contextResult_def getRelevantContext_def ragPromptParts_def nonEmptyOr_def
      contextParts_def contextPart_def toFixed3_def orElse_def digit_def upt_rec)

text \<open>
  Claim C2, as stated: the text sent to the generation provider is exactly the composed
  prompt, with nothing appended. It fails on the code: \<open>generateResponse\<close> posts the
  composed prompt followed by a section \<open>Conversation so far:\<close> and the line
  \<open>Assistant:\<close>. With the query \<open>hi\<close>, no history and no context, the prompt field
  of the posted request differs from the composed prompt, and a model that echoes its
  prompt shows the longer text in the response.
\<close>

theorem sent_prompt_counterexample:
  "generate_request.prompt (generateRequest (ragPrompt [] (historyTail []) ''hi'') (historyTail []))
     \<noteq> ragPrompt [] (historyTail []) ''hi''
   \<and> generateRAGResponse (\<lambda>ts. Inl (Error ''down'')) (\<lambda>v k. Inl (Error ''down''))
         (generateResponse (\<lambda>req. Inr (Some \<lparr>data_response = Some (generate_request.prompt req),
                                                data_output = None, data_message = None\<rparr>)))
         ''hi'' []
       = Inr \<lparr>response = ragPrompt [] [] ''hi'' @ newline @ newline @ ''Conversation so far:''
                          @ newline @ newline @ newline @ ''Assistant:'',
               sources = [], confidence = Low\<rparr>"
proof -
  have cr: "contextResult (\<lambda>ts. Inl (Error ''down'')) (\<lambda>v k. Inl (Error ''down'')) ''hi''
              = \<lparr>contextText = [], documents = []\<rparr>"
    by (simp add: contextResult_def getRelevantContext_def)
  have ht: "historyTail [] = []"
    by (simp add: historyTail_def slice_last_def)
  have low: "confidenceOf [] = Low"
    by (simp add: confidenceOf_def maxScore_def scores_def)
  have a: "generate_request.prompt (generateRequest (ragPrompt [] [] ''hi'') [])
             \<noteq> ragPrompt [] [] ''hi''"
    by (simp add: fullPrompt_text)
  have b: "generateResponse (\<lambda>req. Inr (Some \<lparr>data_response = Some (generate_request.prompt req),
                                                data_output = None, data_message = None\<rparr>))
             (ragPrompt [] [] ''hi'') []
           = Inr (ragPrompt [] [] ''hi'' @ newline @ newline @ ''Conversation so far:''
                          @ newline @ newline @ newline @ ''Assistant:'')"
    by (simp add: generateResponse_def fullPrompt_text orElse_def)
  show ?thesis
    using a by (simp add: generateRAGResponse_cases cr ht low b)
qed

text \<open>
  Claim C2, amended. The prompt that the orchestrator passes to \<open>generateResponse\<close> is
  exactly the composed text, the sections in fixed order: \<open>System:\<close> and the system
  instructions; blank line; the header \<open>Context documents:\<close>; the context text or its
  placeholder; blank line; the header \<open>Recent conversation:\<close>; the history lines or
  their placeholder; blank line; \<open>User question:\<close> and the query; blank line; the closing
  instruction. The result depends on the provider only through its answer to this prompt
  and the history tail. \<open>generateResponse\<close> then posts to the model that text followed
  by a blank line, the header \<open>Conversation so far:\<close>, the rendered history tail, a
  blank line and \<open>Assistant:\<close>; nothing is prepended.
\<close>

theorem prompt_passed_and_sent:
  "cr = contextResult gE sS q \<Longrightarrow> ht = historyTail h \<Longrightarrow>
   composed = ragPrompt (contextText cr) ht q \<Longrightarrow>
   composed =
     ''System: '' @ systemPrompt @ newline
     @ newline
     @ ''Context documents:'' @ newline
     @ (if contextText cr = [] then ''[No context available]'' else contextText cr) @ newline
     @ newline
     @ ''Recent conversation:'' @ newline
     @ (if ht = [] then ''[No previous conversation]'' else join newline (map renderMessage ht)) @ newline
     @ newline
     @ ''User question: '' @ q @ newline
     @ newline
     @ ''Answer clearly and concisely. If you are unsure, say so explicitly.''
   \<and> (\<forall>gR'. gR' composed ht = gR composed ht \<longrightarrow>
          generateRAGResponse gE sS gR' q h = generateRAGResponse gE sS gR q h)
   \<and> (\<forall>t. gR composed ht = Inr t \<longrightarrow>
          generateRAGResponse gE sS gR q h
            = Inr \<lparr>response = t, sources = documents cr, confidence = confidenceOf (documents cr)\<rparr>)
   \<and> (\<forall>post'. post' (generateRequest composed ht) = post (generateRequest composed ht) \<longrightarrow>
          generateRAGResponse gE sS (generateResponse post') q h
            = generateRAGResponse gE sS (generateResponse post) q h)
   \<and> generate_request.prompt (generateRequest composed ht) =
       composed @ newline
       @ newline
       @ ''Conversation so far:'' @ newline
       @ join newline (map renderMessage ht) @ newline
       @ newline
       @ ''Assistant:''"
proof -
  assume cr: "cr = contextResult gE sS q" and ht: "ht = historyTail h"
    and c: "composed = ragPrompt (contextText cr) ht q"
  have t: "composed =
     ''System: '' @ systemPrompt @ newline
     @ newline
     @ ''Context documents:'' @ newline
     @ (if contextText cr = [] then ''[No context available]'' else contextText cr) @ newline
     @ newline
     @ ''Recent conversation:'' @ newline
     @ (if ht = [] then ''[No previous conversation]'' else join newline (map renderMessage ht)) @ newline
     @ newline
     @ ''User question: '' @ q @ newline
     @ newline
     @ ''Answer clearly and concisely. If you are unsure, say so explicitly.''"
    unfolding c by (rule ragPrompt_text)
  have g: "\<And>gR. generateRAGResponse gE sS gR q h =
     (case gR composed ht of
        Inl e \<Rightarrow> Inr fallbackResult
      | Inr t \<Rightarrow> Inr \<lparr>response = t, sources = documents cr, confidence = confidenceOf (documents cr)\<rparr>)"
    unfolding c cr ht by (rule generateRAGResponse_cases)
  have a: "\<forall>gR'. gR' composed ht = gR composed ht \<longrightarrow>
          generateRAGResponse gE sS gR' q h = generateRAGResponse gE sS gR q h"
    by (simp add: g)
  have b: "\<forall>t. gR composed ht = Inr t \<longrightarrow>
          generateRAGResponse gE sS gR q h
            = Inr \<lparr>response = t, sources = documents cr, confidence = confidenceOf (documents cr)\<rparr>"
    by (simp add: g)
  have d: "\<forall>post'. post' (generateRequest composed ht) = post (generateRequest composed ht) \<longrightarrow>
          generateRAGResponse gE sS (generateResponse post') q h
            = generateRAGResponse gE sS (generateResponse post) q h"
    by (simp add: g generateResponse_def)
  from t a b d fullPrompt_text [of composed ht] show ?thesis
    by blast
qed

theorem prompt_passed_and_sent_witness:
  "generateRAGResponse (\<lambda>ts. Inl (Error ''down'')) (\<lambda>v k. Inl (Error ''down''))
      (\<lambda>p ht. Inr ''ok'') ''hi'' [\<lparr>role = ''user'', content = ''q1''\<rparr>]
     = Inr \<lparr>response = ''ok'', sources = [], confidence = Low\<rparr>
   \<and> generate_request.prompt
         (generateRequest
            (ragPrompt
               (contextText (contextResult (\<lambda>ts. Inl (Error ''down'')) (\<lambda>v k. Inl (Error ''down'')) ''hi''))
               (historyTail [\<lparr>role = ''user'', content = ''q1''\<rparr>]) ''hi'')
            (historyTail [\<lparr>role = ''user'', content = ''q1''\<rparr>]))
       = ''System: '' @ systemPrompt @ newline
         @ newline
         @ ''Context documents:'' @ newline
         @ ''[No context available]'' @ newline
         @ newline
         @ ''Recent conversation:'' @ newline
         @ ''User: q1'' @ newline
         @ newline
         @ ''User question: hi'' @ newline
         @ newline
         @ ''Answer clearly and concisely. If you are unsure, say so explicitly.'' @ newline
         @ newline
         @ ''Conversation so far:'' @ newline
         @ ''User: q1'' @ newline
         @ newline
         @ ''Assistant:''"
  using prompt_passed_and_sent
    [where gE = "\<lambda>ts. Inl (Error ''down'')" and sS = "\<lambda>v k. Inl (Error ''down'')"
       and q = "''hi''" and h = "[\<lparr>role = ''user'', content = ''q1''\<rparr>]"
       and gR = "\<lambda>p ht. Inr ''ok''" and post = "\<lambda>req. Inl (Error ''down'')",
     OF refl refl refl]
  by (simp add: contextResult_def getRelevantContext_def historyTail_def slice_last_def
      renderMessage_def confidenceOf_def maxScore_def scores_def ragPrompt_text)

end
